theory Spec2Isabelle
  imports Main "HOL-Library.Word"
begin

section \<open>Global lock state (atomic.c, atomic.h lines 56-57)\<close>

text \<open>
  The host emulation of the AVR interrupt flag keeps two globals:
  \<^verbatim>\<open>pthread_mutex_t _atomic_mutex = PTHREAD_RECURSIVE_MUTEX_INITIALIZER_NP;\<close> and
  \<^verbatim>\<open>uint32_t _atomic_count = 0;\<close>.

  The model follows one thread of control. The recursive mutex is represented by the
  number of times the running thread currently holds it (0: not held). The counter is
  a 32-bit word, so \<open>++\<close> and \<open>--\<close> wrap. Every externally visible action (a call of
  the mutex, a store to the counter, a line written to stderr) is appended to \<open>log\<close>
  in program order, so that the order of the actions inside one call can be stated.
\<close>

datatype event =
    Mutex_lock
  | Mutex_unlock
  | Count_store "32 word"
  | Stderr string

record state =
  atomic_mutex :: nat
  atomic_count :: "32 word"
  log :: "event list"

definition initial_state :: state where
  "initial_state = \<lparr>atomic_mutex = 0, atomic_count = 0, log = []\<rparr>"

subsection \<open>The library calls used by the code\<close>

text \<open>
  \<open>pthread_mutex_lock\<close> on a recursive mutex, called by the only running thread: the
  hold count grows by one. (The implementation's limit on the recursion depth is not
  modelled.) The return value is discarded by the caller.
\<close>

definition pthread_mutex_lock :: "state \<Rightarrow> state" where
  "pthread_mutex_lock s =
     s\<lparr>atomic_mutex := Suc (atomic_mutex s), log := log s @ [Mutex_lock]\<rparr>"

text \<open>
  \<open>pthread_mutex_unlock\<close> on a recursive mutex: a thread that does not hold the mutex
  gets the error EPERM and the mutex is left as it is; otherwise the hold count drops
  by one. The return value is discarded by the caller.
\<close>

definition pthread_mutex_unlock :: "state \<Rightarrow> state" where
  "pthread_mutex_unlock s =
     (if atomic_mutex s = 0 then s\<lparr>log := log s @ [Mutex_unlock]\<rparr>
      else s\<lparr>atomic_mutex := atomic_mutex s - 1, log := log s @ [Mutex_unlock]\<rparr>)"

definition warning :: string where
  "warning = ''you nested non recursive locks'' @ [CHR 0x0A]"

definition fprintf_stderr :: "string \<Rightarrow> state \<Rightarrow> state" where
  "fprintf_stderr msg s = s\<lparr>log := log s @ [Stderr msg]\<rparr>"

subsection \<open>The helpers \<open>__sei\<close> and \<open>__cli\<close> (atomic.h lines 59-71)\<close>

text \<open>
  \<^verbatim>\<open>if(--_atomic_count && type) fprintf(stderr, ...); pthread_mutex_unlock(&_atomic_mutex);\<close>
  The pre-decrement stores the new value and yields it; \<open>&&\<close> then tests \<open>type\<close>.
\<close>

definition sei :: "8 word \<Rightarrow> state \<Rightarrow> state" where
  "sei type s =
     (let c = atomic_count s - 1;
          s1 = s\<lparr>atomic_count := c, log := log s @ [Count_store c]\<rparr>;
          s2 = (if c \<noteq> 0 \<and> type \<noteq> 0 then fprintf_stderr warning s1 else s1)
      in pthread_mutex_unlock s2)"

text \<open>
  \<^verbatim>\<open>pthread_mutex_lock(&_atomic_mutex); if(_atomic_count++ && type) fprintf(stderr, ...);\<close>
  The post-increment stores the new value and yields the old one.
\<close>

definition cli :: "8 word \<Rightarrow> state \<Rightarrow> state" where
  "cli type s =
     (let s1 = pthread_mutex_lock s;
          old = atomic_count s1;
          s2 = s1\<lparr>atomic_count := old + 1, log := log s1 @ [Count_store (old + 1)]\<rparr>
      in if old \<noteq> 0 \<and> type \<noteq> 0 then fprintf_stderr warning s2 else s2)"

definition iSeiRetVal :: "8 word \<Rightarrow> state \<Rightarrow> 8 word \<times> state" where
  "iSeiRetVal type s = (1, sei type s)"

definition iCliRetVal :: "8 word \<Rightarrow> state \<Rightarrow> 8 word \<times> state" where
  "iCliRetVal type s = (1, cli type s)"

text \<open>
  The cleanup handlers are given the address of the guard variable and read it when
  they run; the argument here is the value the variable holds at that moment.
\<close>

definition iSeiParam :: "8 word \<Rightarrow> state \<Rightarrow> state" where
  "iSeiParam type s = sei type s"

definition iCliParam :: "8 word \<Rightarrow> state \<Rightarrow> state" where
  "iCliParam type s = cli type s"

text \<open>The lines written to stderr, read off the log.\<close>

fun stderr_lines :: "event list \<Rightarrow> string list" where
  "stderr_lines [] = []"
| "stderr_lines (Stderr msg # es) = msg # stderr_lines es"
| "stderr_lines (e # es) = stderr_lines es"

section \<open>Scoped sections (atomic.h lines 228-329)\<close>

text \<open>
  \<^verbatim>\<open>#define ATOMIC_BLOCK(type) for ( type, __ToDo = __iCliRetVal(sreg_save); __ToDo ; __ToDo = 0 )\<close>
  and its dual with \<open>__iSeiRetVal\<close>. The parameter \<open>type\<close> declares the guard
  variable \<open>sreg_save\<close> with its initial value and its cleanup handler, for example
  \<^verbatim>\<open>uint8_t sreg_save __attribute__((__cleanup__(__iSeiParam))) = 0\<close>.

  The statement after the macro is the body of the \<open>for\<close> loop. Control leaves a
  body by reaching its end, by \<open>continue\<close>, by \<open>break\<close>, by \<open>return\<close>, or by a
  \<open>longjmp\<close> to a point outside the section. (A \<open>goto\<close> out of the body leaves
  the scope of the guard variable as \<open>break\<close> does and has no case of its own.)

  The guard variable is an ordinary, non-const local in the scope of the body, so
  the body can assign it. A body of a section is therefore a function of the value
  of \<open>sreg_save\<close> and the state when it starts, and gives the way control left it,
  the value of \<open>sreg_save\<close> then, and the state then. (The body can also name
  \<open>__ToDo\<close>; the loop reads it again only after its step has set it to 0, so a
  value the body gives it is never read.)
\<close>

datatype completion = Normal | Continue | Break | Return | Longjmp

type_synonym block_body = "8 word \<Rightarrow> state \<Rightarrow> completion \<times> 8 word \<times> state"

datatype block_type =
  ATOMIC_RESTORESTATE | ATOMIC_FORCEON | NONATOMIC_RESTORESTATE | NONATOMIC_FORCEOFF

text \<open>The initial value of \<open>sreg_save\<close> in each of the four parameter macros.\<close>

fun sreg_save :: "block_type \<Rightarrow> 8 word" where
  "sreg_save ATOMIC_RESTORESTATE = 0"
| "sreg_save ATOMIC_FORCEON = 1"
| "sreg_save NONATOMIC_RESTORESTATE = 0"
| "sreg_save NONATOMIC_FORCEOFF = 1"

text \<open>
  The handler named in the \<open>__cleanup__\<close> attribute of each parameter macro. It is
  run with the address of \<open>sreg_save\<close> when the variable goes out of scope.
\<close>

fun cleanup :: "block_type \<Rightarrow> 8 word \<Rightarrow> state \<Rightarrow> state" where
  "cleanup ATOMIC_RESTORESTATE = iSeiParam"
| "cleanup ATOMIC_FORCEON = iSeiParam"
| "cleanup NONATOMIC_RESTORESTATE = iCliParam"
| "cleanup NONATOMIC_FORCEOFF = iCliParam"

text \<open>
  The loop \<^verbatim>\<open>for ( ...; __ToDo ; __ToDo = 0 ) body\<close> after its initialisation,
  with the current value \<open>v\<close> of \<open>sreg_save\<close>: reaching the end of the body or
  \<open>continue\<close> runs the step \<open>__ToDo = 0\<close> and tests again; \<open>break\<close> ends the
  loop; \<open>return\<close> leaves the enclosing function; \<open>longjmp\<close> leaves it for the
  place of the \<open>setjmp\<close>.
\<close>

function for_loop ::
  "8 word \<Rightarrow> block_body \<Rightarrow> 8 word \<Rightarrow> state \<Rightarrow> completion \<times> 8 word \<times> state" where
  "for_loop ToDo body v s =
     (if ToDo \<noteq> 0 then
        (case body v s of
           (Normal, v', s') \<Rightarrow> for_loop 0 body v' s'
         | (Continue, v', s') \<Rightarrow> for_loop 0 body v' s'
         | (Break, v', s') \<Rightarrow> (Normal, v', s')
         | (Return, v', s') \<Rightarrow> (Return, v', s')
         | (Longjmp, v', s') \<Rightarrow> (Longjmp, v', s'))
      else (Normal, v, s))"
  by pat_completeness auto
termination
  by (relation "measure (\<lambda>(ToDo, body, v, s). if ToDo \<noteq> 0 then 1 else 0)") auto

text \<open>
  The whole statement: the guard variable is initialised, the entry helper is called
  with it and gives \<open>__ToDo\<close>, the loop runs, and when control leaves the scope of
  the loop variables at the end of the loop or by \<open>return\<close>, the cleanup handler
  runs on the value \<open>sreg_save\<close> has then. A \<open>longjmp\<close> out of the body leaves the
  scope without running the handler.
\<close>

definition ATOMIC_BLOCK :: "block_type \<Rightarrow> block_body \<Rightarrow> state \<Rightarrow> completion \<times> state" where
  "ATOMIC_BLOCK type body s =
     (let v0 = sreg_save type;
          (ToDo, s1) = iCliRetVal v0 s;
          (c, v, s2) = for_loop ToDo body v0 s1
      in if c = Longjmp then (Longjmp, s2) else (c, cleanup type v s2))"

definition NONATOMIC_BLOCK :: "block_type \<Rightarrow> block_body \<Rightarrow> state \<Rightarrow> completion \<times> state" where
  "NONATOMIC_BLOCK type body s =
     (let v0 = sreg_save type;
          (ToDo, s1) = iSeiRetVal v0 s;
          (c, v, s2) = for_loop ToDo body v0 s1
      in if c = Longjmp then (Longjmp, s2) else (c, cleanup type v s2))"

text \<open>
  The four permitted combinations: \<open>ATOMIC_BLOCK\<close> takes \<open>ATOMIC_RESTORESTATE\<close> or
  \<open>ATOMIC_FORCEON\<close>, \<open>NONATOMIC_BLOCK\<close> takes \<open>NONATOMIC_RESTORESTATE\<close> or
  \<open>NONATOMIC_FORCEOFF\<close>.
\<close>

fun block :: "block_type \<Rightarrow> block_body \<Rightarrow> state \<Rightarrow> completion \<times> state" where
  "block ATOMIC_RESTORESTATE body s = ATOMIC_BLOCK ATOMIC_RESTORESTATE body s"
| "block ATOMIC_FORCEON body s = ATOMIC_BLOCK ATOMIC_FORCEON body s"
| "block NONATOMIC_RESTORESTATE body s = NONATOMIC_BLOCK NONATOMIC_RESTORESTATE body s"
| "block NONATOMIC_FORCEOFF body s = NONATOMIC_BLOCK NONATOMIC_FORCEOFF body s"

text \<open>
  A body that does not assign \<open>sreg_save\<close> is a function of the state alone; as the
  body of a section it hands the guard variable on as it found it. A section nested
  in a body is such a statement: it declares a guard variable of its own, which
  hides the outer one. \<open>guard\<close> is a section with a body of this kind.
\<close>

type_synonym body = "state \<Rightarrow> completion \<times> state"

definition keep :: "body \<Rightarrow> block_body" where
  "keep body v s = (case body s of (c, s') \<Rightarrow> (c, v, s'))"

definition guard :: "block_type \<Rightarrow> body \<Rightarrow> state \<Rightarrow> completion \<times> state" where
  "guard type body s = block type (keep body) s"

fun is_atomic :: "block_type \<Rightarrow> bool" where
  "is_atomic ATOMIC_RESTORESTATE = True"
| "is_atomic ATOMIC_FORCEON = True"
| "is_atomic NONATOMIC_RESTORESTATE = False"
| "is_atomic NONATOMIC_FORCEOFF = False"

text \<open>The empty body \<open>{ }\<close>.\<close>

definition skip :: body where
  "skip s = (Normal, s)"

subsection \<open>Nested sections on one thread of control\<close>

text \<open>
  A region of code built from the four sections and from early exits; the body of a
  section is a sequence of regions. A sequence stops at the first region that does
  not complete normally. The regions assign no guard variable, and a \<open>longjmp\<close> in
  them goes to a point outside all the sections.
\<close>

datatype region = Block block_type "region list" | Leave completion

fun exec :: "region \<Rightarrow> state \<Rightarrow> completion \<times> state"
  and exec_seq :: "region list \<Rightarrow> state \<Rightarrow> completion \<times> state" where
  "exec (Leave c) s = (c, s)"
| "exec (Block type b) s = guard type (\<lambda>s'. exec_seq b s') s"
| "exec_seq [] s = (Normal, s)"
| "exec_seq (x # xs) s = (case exec x s of (Normal, s') \<Rightarrow> exec_seq xs s' | r \<Rightarrow> r)"

text \<open>The Force parameter that goes with each Restore parameter.\<close>

fun force_type :: "block_type \<Rightarrow> block_type" where
  "force_type ATOMIC_RESTORESTATE = ATOMIC_FORCEON"
| "force_type ATOMIC_FORCEON = ATOMIC_FORCEON"
| "force_type NONATOMIC_RESTORESTATE = NONATOMIC_FORCEOFF"
| "force_type NONATOMIC_FORCEOFF = NONATOMIC_FORCEOFF"

text \<open>The log without the lines written to stderr.\<close>

fun quiet :: "event list \<Rightarrow> event list" where
  "quiet [] = []"
| "quiet (Stderr msg # es) = quiet es"
| "quiet (e # es) = e # quiet es"

text \<open>
  What a state shows of the lock: the hold count of the mutex, the counter, and the
  log without the lines written to stderr.
\<close>

definition lock_view :: "state \<Rightarrow> nat \<times> 32 word \<times> event list" where
  "lock_view s = (atomic_mutex s, atomic_count s, quiet (log s))"

text \<open>A region with every Restore parameter replaced by its Force parameter.\<close>

fun force :: "region \<Rightarrow> region" where
  "force (Block type b) = Block (force_type type) (map force b)"
| "force (Leave c) = Leave c"

section \<open>Basic facts about the helpers\<close>

lemma sei_count: "atomic_count (sei type s) = atomic_count s - 1"
  by (simp add: sei_def Let_def pthread_mutex_unlock_def fprintf_stderr_def)

lemma cli_count: "atomic_count (cli type s) = atomic_count s + 1"
  by (simp add: cli_def Let_def pthread_mutex_lock_def fprintf_stderr_def)

lemma sei_mutex: "atomic_mutex (sei type s) = atomic_mutex s - 1"
  by (simp add: sei_def Let_def pthread_mutex_unlock_def fprintf_stderr_def)

lemma cli_mutex: "atomic_mutex (cli type s) = Suc (atomic_mutex s)"
  by (simp add: cli_def Let_def pthread_mutex_lock_def fprintf_stderr_def)

lemma sei_log:
  "log (sei type s) =
     log s @ [Count_store (atomic_count s - 1)]
           @ (if atomic_count s - 1 \<noteq> 0 \<and> type \<noteq> 0 then [Stderr warning] else [])
           @ [Mutex_unlock]"
  by (simp add: sei_def Let_def pthread_mutex_unlock_def fprintf_stderr_def)

lemma cli_log:
  "log (cli type s) =
     log s @ [Mutex_lock, Count_store (atomic_count s + 1)]
           @ (if atomic_count s \<noteq> 0 \<and> type \<noteq> 0 then [Stderr warning] else [])"
  by (simp add: cli_def Let_def pthread_mutex_lock_def fprintf_stderr_def)

lemma word32_pred_nonzero: "(1::32 word) \<le> x \<Longrightarrow> (x - 1 \<noteq> 0) = (1 < x)"
  by (auto simp: word_le_less_eq)

lemma word32_succ_gt_one: "x \<noteq> - 1 \<Longrightarrow> ((x::32 word) \<noteq> 0) = (1 < x + 1)"
  using antisym_conv3 eq_neg_iff_add_eq_0 by fastforce

lemma word32_pred_unat: "(1::32 word) \<le> x \<Longrightarrow> unat (x - 1) = unat x - 1"
  by (metis unat_sub unat_1)

section \<open>Facts about the sections\<close>

text \<open>How control goes on after the loop, given how it left the body.\<close>

lemma for_loop_once:
  "for_loop 1 body v s =
     (case body v s of (c, v', s') \<Rightarrow>
        (if c = Return then Return else if c = Longjmp then Longjmp else Normal, v', s'))"
  by (simp split: prod.splits completion.splits)

lemma ATOMIC_BLOCK_run:
  "ATOMIC_BLOCK type body s =
     (case body (sreg_save type) (cli (sreg_save type) s) of (c, v, s') \<Rightarrow>
        if c = Longjmp then (Longjmp, s')
        else (if c = Return then Return else Normal, cleanup type v s'))"
  unfolding ATOMIC_BLOCK_def iCliRetVal_def Let_def
  by (simp add: for_loop_once split: prod.splits del: for_loop.simps)

lemma NONATOMIC_BLOCK_run:
  "NONATOMIC_BLOCK type body s =
     (case body (sreg_save type) (sei (sreg_save type) s) of (c, v, s') \<Rightarrow>
        if c = Longjmp then (Longjmp, s')
        else (if c = Return then Return else Normal, cleanup type v s'))"
  unfolding NONATOMIC_BLOCK_def iSeiRetVal_def Let_def
  by (simp add: for_loop_once split: prod.splits del: for_loop.simps)

lemma block_run:
  "block type body s =
     (case body (sreg_save type)
             (if is_atomic type then cli (sreg_save type) s else sei (sreg_save type) s) of
        (c, v, s') \<Rightarrow>
          if c = Longjmp then (Longjmp, s')
          else (if c = Return then Return else Normal, cleanup type v s'))"
  by (cases type) (simp_all add: ATOMIC_BLOCK_run NONATOMIC_BLOCK_run split: prod.splits)

lemma guard_run:
  "guard type body s =
     (case body (if is_atomic type then cli (sreg_save type) s else sei (sreg_save type) s) of
        (c, s') \<Rightarrow>
          if c = Longjmp then (Longjmp, s')
          else (if c = Return then Return else Normal, cleanup type (sreg_save type) s'))"
  by (simp add: guard_def block_run keep_def split: prod.splits)

lemma guard_state:
  "fst (body (cli 0 s)) \<noteq> Longjmp \<Longrightarrow>
     snd (guard ATOMIC_RESTORESTATE body s) = sei 0 (snd (body (cli 0 s)))"
  "fst (body (cli 1 s)) \<noteq> Longjmp \<Longrightarrow>
     snd (guard ATOMIC_FORCEON body s) = sei 1 (snd (body (cli 1 s)))"
  "fst (body (sei 0 s)) \<noteq> Longjmp \<Longrightarrow>
     snd (guard NONATOMIC_RESTORESTATE body s) = cli 0 (snd (body (sei 0 s)))"
  "fst (body (sei 1 s)) \<noteq> Longjmp \<Longrightarrow>
     snd (guard NONATOMIC_FORCEOFF body s) = cli 1 (snd (body (sei 1 s)))"
  by (auto simp: guard_run iSeiParam_def iCliParam_def split: prod.splits)

declare block.simps [simp del]

lemma exec_seq_Cons:
  "exec_seq (x # xs) s =
     (if fst (exec x s) = Normal then exec_seq xs (snd (exec x s)) else exec x s)"
  by (cases "exec x s") (auto split: completion.splits)

lemma quiet_append: "quiet (xs @ ys) = quiet xs @ quiet ys"
  by (induction xs rule: quiet.induct) simp_all

lemma lock_view_cli:
  "lock_view s = lock_view s' \<Longrightarrow> lock_view (cli v s) = lock_view (cli w s')"
  by (simp add: lock_view_def cli_mutex cli_count cli_log quiet_append)

lemma lock_view_sei:
  "lock_view s = lock_view s' \<Longrightarrow> lock_view (sei v s) = lock_view (sei w s')"
  by (simp add: lock_view_def sei_mutex sei_count sei_log quiet_append)

lemma lock_view_cleanup:
  "lock_view s = lock_view s' \<Longrightarrow>
   lock_view (cleanup type v s) = lock_view (cleanup (force_type type) w s')"
  by (cases type) (simp_all add: iSeiParam_def iCliParam_def lock_view_sei lock_view_cli)

lemma is_atomic_force_type: "is_atomic (force_type type) = is_atomic type"
  by (cases type) simp_all

lemma guard_force:
  assumes body: "\<And>a b. lock_view a = lock_view b \<Longrightarrow>
      fst (body a) = fst (body' b) \<and> lock_view (snd (body a)) = lock_view (snd (body' b))"
    and s: "lock_view s = lock_view s'"
  shows "fst (guard type body s) = fst (guard (force_type type) body' s')
       \<and> lock_view (snd (guard type body s)) = lock_view (snd (guard (force_type type) body' s'))"
proof -
  define a where "a = (if is_atomic type then cli (sreg_save type) s else sei (sreg_save type) s)"
  define b where "b = (if is_atomic type then cli (sreg_save (force_type type)) s'
                       else sei (sreg_save (force_type type)) s')"
  have "lock_view a = lock_view b"
    unfolding a_def b_def using s by (simp add: lock_view_cli lock_view_sei)
  from body [OF this]
  have c: "fst (body a) = fst (body' b)"
    and v: "lock_view (snd (body a)) = lock_view (snd (body' b))"
    by simp_all
  have g: "guard type body s =
      (if fst (body a) = Longjmp then (Longjmp, snd (body a))
       else (if fst (body a) = Return then Return else Normal,
             cleanup type (sreg_save type) (snd (body a))))"
    unfolding a_def by (simp add: guard_run split: prod.splits)
  have g': "guard (force_type type) body' s' =
      (if fst (body' b) = Longjmp then (Longjmp, snd (body' b))
       else (if fst (body' b) = Return then Return else Normal,
             cleanup (force_type type) (sreg_save (force_type type)) (snd (body' b))))"
    unfolding b_def by (simp add: guard_run is_atomic_force_type split: prod.splits)
  show ?thesis
    unfolding g g' using c v by (simp add: lock_view_cleanup)
qed

lemma exec_force:
  "lock_view s = lock_view s' \<Longrightarrow>
     fst (exec r s) = fst (exec (force r) s')
     \<and> lock_view (snd (exec r s)) = lock_view (snd (exec (force r) s'))"
  "lock_view s = lock_view s' \<Longrightarrow>
     fst (exec_seq rs s) = fst (exec_seq (map force rs) s')
     \<and> lock_view (snd (exec_seq rs s)) = lock_view (snd (exec_seq (map force rs) s'))"
proof (induction r s and rs s arbitrary: s' and s' rule: exec_exec_seq.induct)
  case (1 c s)
  then show ?case by simp
next
  case (2 type b s)
  show ?case
    unfolding exec.simps force.simps
    by (rule guard_force [OF _ 2(2)]) (rule 2(1))
next
  case (3 s)
  then show ?case by simp
next
  case (4 x xs s)
  have x: "fst (exec x s) = fst (exec (force x) s')
      \<and> lock_view (snd (exec x s)) = lock_view (snd (exec (force x) s'))"
    by (rule 4(1) [OF 4(3)])
  show ?case
  proof (cases "fst (exec x s) = Normal")
    case True
    then have "(Normal, snd (exec x s)) = exec x s"
      by (metis prod.collapse)
    from 4(2) [OF this refl, of "snd (exec (force x) s')"] x True show ?thesis
      by (simp add: exec_seq_Cons del: exec_seq.simps)
  next
    case False
    with x show ?thesis
      by (simp add: exec_seq_Cons del: exec_seq.simps)
  qed
qed

section \<open>Release without a matching acquire\<close>

text \<open>
  C10. When \<open>__sei\<close> is called with the counter at 0, the 32-bit counter wraps to
  4294967295 (nothing traps); that value is nonzero, so the warning is written exactly
  when the diagnostic argument is set; a following \<open>__cli\<close> brings the counter back
  to 0.
\<close>

theorem sei_at_zero_wraps:
  assumes "atomic_count s = 0"
  shows "atomic_count (sei type s) = 4294967295
       \<and> unat (atomic_count (sei type s)) = 2 ^ 32 - 1
       \<and> log (sei type s) =
           log s @ [Count_store 4294967295]
                 @ (if type \<noteq> 0 then [Stderr warning] else [])
                 @ [Mutex_unlock]
       \<and> atomic_count (cli type' (sei type s)) = 0"
  using assms
  by (simp add: sei_count cli_count sei_log unsigned_minus_1_eq_mask mask_eq_exp_minus_1)

theorem sei_at_zero_wraps_witness:
  "atomic_count initial_state = 0
   \<and> atomic_count (sei 1 initial_state) = 4294967295
   \<and> log (sei 1 initial_state) = [Count_store 4294967295, Stderr warning, Mutex_unlock]
   \<and> log (sei 0 initial_state) = [Count_store 4294967295, Mutex_unlock]
   \<and> atomic_count (cli 1 (sei 1 initial_state)) = 0"
  using sei_at_zero_wraps [of initial_state 1 1] sei_at_zero_wraps [of initial_state 0 1]
  by (simp add: initial_state_def)

section \<open>Acquire\<close>

text \<open>
  C3, as stated, fails at one counter value. With the counter at 4294967295 (reached
  by a release from 0) and the diagnostic argument set, \<open>__cli\<close> writes the warning
  although the value after the increment is 0, which is not greater than 1.
\<close>

theorem cli_warns_after_wrap:
  "atomic_count (sei 0 initial_state) = 4294967295
   \<and> log (cli 1 (sei 0 initial_state)) =
       [Count_store 4294967295, Mutex_unlock, Mutex_lock, Count_store 0, Stderr warning]
   \<and> atomic_count (cli 1 (sei 0 initial_state)) = 0
   \<and> \<not> 1 < atomic_count (cli 1 (sei 0 initial_state))"
  by (simp add: cli_log cli_count sei_log sei_count initial_state_def)

text \<open>
  C3, amended. Every call of \<open>__cli\<close> first locks the mutex, then stores the
  incremented counter, and writes the warning after that exactly when the argument is
  nonzero and the counter was nonzero before the increment. Unless the counter was
  4294967295, that is the same as the incremented counter being greater than 1. The
  call has no failing path: it yields the next state for every argument and state.
\<close>

theorem cli_effect:
  "atomic_mutex (cli type s) = Suc (atomic_mutex s)
   \<and> atomic_count (cli type s) = atomic_count s + 1
   \<and> log (cli type s) =
       log s @ [Mutex_lock, Count_store (atomic_count s + 1)]
             @ (if type \<noteq> 0 \<and> atomic_count s \<noteq> 0 then [Stderr warning] else [])
   \<and> (atomic_count s \<noteq> - 1 \<longrightarrow>
        (atomic_count s \<noteq> 0) = (1 < atomic_count (cli type s)))"
  by (simp add: cli_mutex cli_count cli_log word32_succ_gt_one)

theorem cli_effect_witness:
  "atomic_count (cli 1 initial_state) \<noteq> - 1
   \<and> atomic_mutex (cli 1 (cli 1 initial_state)) = 2
   \<and> atomic_count (cli 1 (cli 1 initial_state)) = 2
   \<and> log (cli 1 (cli 1 initial_state)) =
       [Mutex_lock, Count_store 1, Mutex_lock, Count_store 2, Stderr warning]
   \<and> 1 < atomic_count (cli 1 (cli 1 initial_state))"
  using cli_effect [of 1 "cli 1 initial_state"] cli_effect [of 1 initial_state]
  by (simp add: initial_state_def)

section \<open>Release\<close>

text \<open>
  C4. Every call of \<open>__sei\<close> with the counter at least 1 first stores the
  decremented counter (a true decrement, without wrap), then writes the warning
  exactly when the argument is nonzero and the counter was greater than 1 before the
  decrement, and calls the unlock of the mutex last, which takes one hold off the
  mutex.
\<close>

theorem sei_effect:
  assumes "1 \<le> atomic_count s"
  shows "atomic_count (sei type s) = atomic_count s - 1
       \<and> unat (atomic_count (sei type s)) = unat (atomic_count s) - 1
       \<and> log (sei type s) =
           log s @ [Count_store (atomic_count s - 1)]
                 @ (if type \<noteq> 0 \<and> 1 < atomic_count s then [Stderr warning] else [])
                 @ [Mutex_unlock]
       \<and> atomic_mutex (sei type s) = atomic_mutex s - 1"
  using assms
  by (simp add: sei_count sei_log sei_mutex word32_pred_nonzero word32_pred_unat)

theorem sei_effect_witness:
  "1 \<le> atomic_count (cli 1 (cli 1 initial_state))
   \<and> atomic_count (sei 1 (cli 1 (cli 1 initial_state))) = 1
   \<and> log (sei 1 (cli 1 (cli 1 initial_state))) =
       [Mutex_lock, Count_store 1, Mutex_lock, Count_store 2, Stderr warning,
        Count_store 1, Stderr warning, Mutex_unlock]
   \<and> log (sei 1 (cli 1 initial_state)) =
       [Mutex_lock, Count_store 1, Count_store 0, Mutex_unlock]
   \<and> atomic_mutex (cli 1 (cli 1 initial_state)) = 2
   \<and> atomic_mutex (sei 1 (cli 1 (cli 1 initial_state))) = 1
   \<and> atomic_mutex (sei 1 (cli 1 initial_state)) = 0"
  using sei_effect [of "cli 1 (cli 1 initial_state)" 1] sei_effect [of "cli 1 initial_state" 1]
  by (simp add: cli_count cli_log cli_mutex initial_state_def)

section \<open>Two nested atomic sections\<close>

text \<open>
  C6. Two nested atomic sections with empty inner body, entered with the counter at
  0. When both are \<open>ATOMIC_FORCEON\<close> (diagnostic argument 1), the warning is written
  once at the inner acquire and once at the inner release, and not at the outer
  acquire or release. When the inner section is \<open>ATOMIC_RESTORESTATE\<close> (argument
  0), no warning is written, whichever of the two the outer section is.
\<close>

theorem nested_atomic_diagnostics:
  assumes "atomic_count s = 0"
  shows "log (snd (guard ATOMIC_FORCEON (guard ATOMIC_FORCEON skip) s)) =
           log s @ [Mutex_lock, Count_store 1,
                    Mutex_lock, Count_store 2, Stderr warning,
                    Count_store 1, Stderr warning, Mutex_unlock,
                    Count_store 0, Mutex_unlock]
       \<and> log (snd (guard ATOMIC_FORCEON (guard ATOMIC_RESTORESTATE skip) s)) =
           log s @ [Mutex_lock, Count_store 1,
                    Mutex_lock, Count_store 2,
                    Count_store 1, Mutex_unlock,
                    Count_store 0, Mutex_unlock]
       \<and> log (snd (guard ATOMIC_RESTORESTATE (guard ATOMIC_RESTORESTATE skip) s)) =
           log s @ [Mutex_lock, Count_store 1,
                    Mutex_lock, Count_store 2,
                    Count_store 1, Mutex_unlock,
                    Count_store 0, Mutex_unlock]"
  using assms
  by (simp add: guard_run skip_def iSeiParam_def sei_log cli_log sei_count cli_count)

theorem nested_atomic_diagnostics_witness:
  "atomic_count initial_state = 0
   \<and> stderr_lines (log (snd (guard ATOMIC_FORCEON (guard ATOMIC_FORCEON skip) initial_state))) =
       [warning, warning]
   \<and> stderr_lines (log (snd (guard ATOMIC_FORCEON (guard ATOMIC_RESTORESTATE skip) initial_state))) = []
   \<and> stderr_lines (log (snd (guard ATOMIC_RESTORESTATE (guard ATOMIC_RESTORESTATE skip) initial_state))) = []"
  using nested_atomic_diagnostics [of initial_state]
  by (simp add: initial_state_def)

section \<open>The diagnostic argument of the four sections\<close>




section \<open>The Force sections\<close>

text \<open>
  C2, as stated, fails for \<open>ATOMIC_FORCEON\<close> entered with the mutex held. The exit
  action releases the recursive mutex once, which undoes the acquire of the entry only:
  entered with the mutex held once, the section leaves it held once, not unlocked.
\<close>

theorem forceon_entered_locked_stays_locked:
  "atomic_mutex (cli 0 initial_state) = 1
   \<and> atomic_mutex (snd (guard ATOMIC_FORCEON skip (cli 0 initial_state))) = 1
   \<and> atomic_mutex (snd (guard ATOMIC_FORCEON skip (cli 0 initial_state))) \<noteq> 0"
  by (simp add: guard_state skip_def sei_mutex cli_mutex initial_state_def)

text \<open>
  C2, amended. When control leaves the body of a Force section by its end, by
  \<open>continue\<close>, by \<open>break\<close> or by \<open>return\<close>, the exit action is the release
  helper (for \<open>ATOMIC_FORCEON\<close>) or the acquire helper (for \<open>NONATOMIC_FORCEOFF\<close>)
  applied to the state the body left, with the value \<open>sreg_save\<close> has then; what it
  does to the mutex and the counter is the same for every value of that argument, so
  it reads no state of the lock captured at entry. After a \<open>NONATOMIC_FORCEOFF\<close>
  section the mutex is held, whatever the state at entry. After an \<open>ATOMIC_FORCEON\<close>
  section the mutex is held once less than the body left it; when the body leaves the
  hold count as it found it, the hold count is back at its value at entry, so the
  mutex is unlocked after the exit exactly when it was unlocked at entry.
\<close>

theorem force_guard_exit:
  "(fst (body 1 (cli 1 s)) \<noteq> Longjmp \<longrightarrow>
      snd (block ATOMIC_FORCEON body s) =
        sei (fst (snd (body 1 (cli 1 s)))) (snd (snd (body 1 (cli 1 s))))
      \<and> atomic_mutex (snd (block ATOMIC_FORCEON body s)) =
        atomic_mutex (snd (snd (body 1 (cli 1 s)))) - 1
      \<and> (atomic_mutex (snd (snd (body 1 (cli 1 s)))) = atomic_mutex (cli 1 s) \<longrightarrow>
           atomic_mutex (snd (block ATOMIC_FORCEON body s)) = atomic_mutex s
           \<and> (atomic_mutex (snd (block ATOMIC_FORCEON body s)) = 0) = (atomic_mutex s = 0)))
   \<and> (fst (body 1 (sei 1 s)) \<noteq> Longjmp \<longrightarrow>
      snd (block NONATOMIC_FORCEOFF body s) =
        cli (fst (snd (body 1 (sei 1 s)))) (snd (snd (body 1 (sei 1 s))))
      \<and> 0 < atomic_mutex (snd (block NONATOMIC_FORCEOFF body s)))
   \<and> lock_view (sei v x) = lock_view (sei w x)
   \<and> lock_view (cli v x) = lock_view (cli w x)"
  by (simp add: block_run iSeiParam_def iCliParam_def sei_mutex cli_mutex
      lock_view_sei [OF refl] lock_view_cli [OF refl] split: prod.splits)

theorem force_guard_exit_witness:
  "fst (keep (guard NONATOMIC_RESTORESTATE skip) 1 (cli 1 initial_state)) \<noteq> Longjmp
   \<and> atomic_mutex (snd (snd (keep (guard NONATOMIC_RESTORESTATE skip) 1 (cli 1 initial_state)))) =
       atomic_mutex (cli 1 initial_state)
   \<and> atomic_mutex (snd (block ATOMIC_FORCEON (keep (guard NONATOMIC_RESTORESTATE skip))
        initial_state)) = 0
   \<and> atomic_mutex (snd (block ATOMIC_FORCEON (keep (guard NONATOMIC_RESTORESTATE skip))
        (cli 1 initial_state))) = 1
   \<and> fst (keep skip 1 (sei 1 initial_state)) \<noteq> Longjmp
   \<and> atomic_mutex (snd (block NONATOMIC_FORCEOFF (keep skip) initial_state)) = 1
   \<and> atomic_mutex (snd (block NONATOMIC_FORCEOFF (keep skip) (cli 1 initial_state))) = 1"
  using force_guard_exit [of "keep (guard NONATOMIC_RESTORESTATE skip)" initial_state]
    force_guard_exit [of "keep (guard NONATOMIC_RESTORESTATE skip)" "cli 1 initial_state"]
    force_guard_exit [of "keep skip" initial_state]
    force_guard_exit [of "keep skip" "cli 1 initial_state"]
  by (simp add: keep_def skip_def guard_run iCliParam_def sei_mutex cli_mutex initial_state_def)

section \<open>Leaving a section by longjmp\<close>

text \<open>
  C7, at the input where the code departs from it. An \<open>ATOMIC_FORCEON\<close> section
  entered in the initial state whose body leaves by \<open>longjmp\<close>: the cleanup
  handler does not run, no unlock call is made, and the mutex stays held with the
  counter at 1. The same section left by \<open>return\<close> unlocks once.
\<close>

theorem longjmp_skips_cleanup:
  "guard ATOMIC_FORCEON (\<lambda>s. (Longjmp, s)) initial_state =
     (Longjmp, \<lparr>atomic_mutex = 1, atomic_count = 1, log = [Mutex_lock, Count_store 1]\<rparr>)
   \<and> count_list (log (snd (guard ATOMIC_FORCEON (\<lambda>s. (Longjmp, s)) initial_state)))
        Mutex_unlock = 0
   \<and> guard ATOMIC_FORCEON (\<lambda>s. (Return, s)) initial_state =
     (Return, \<lparr>atomic_mutex = 0, atomic_count = 0,
               log = [Mutex_lock, Count_store 1, Count_store 0, Mutex_unlock]\<rparr>)"
  by (simp add: guard_run iSeiParam_def sei_def cli_def Let_def pthread_mutex_lock_def
      pthread_mutex_unlock_def fprintf_stderr_def initial_state_def)

section \<open>A non-atomic section entered with the mutex not held\<close>

text \<open>
  C5, at the input where the code departs from it. A \<open>NONATOMIC_RESTORESTATE\<close>
  section with an empty body, entered in the initial state with the mutex not held:
  the unlock of its entry finds nothing to release and leaves the mutex as it is, the
  lock of its exit takes the mutex, and no warning is written. The section ends with
  the mutex held once and the counter at 0, so the state of the lock after the
  section is not its state before.
\<close>

theorem nonatomic_outermost_keeps_lock:
  "atomic_mutex initial_state = 0
   \<and> atomic_mutex (snd (exec (Block NONATOMIC_RESTORESTATE []) initial_state)) = 1
   \<and> atomic_mutex (snd (exec (Block NONATOMIC_RESTORESTATE []) initial_state))
       \<noteq> atomic_mutex initial_state
   \<and> exec (Block NONATOMIC_RESTORESTATE []) initial_state =
       (Normal, \<lparr>atomic_mutex = 1, atomic_count = 0,
                 log = [Count_store 4294967295, Mutex_unlock, Mutex_lock, Count_store 0]\<rparr>)"
  by (simp add: guard_run iCliParam_def sei_def cli_def Let_def pthread_mutex_lock_def
      pthread_mutex_unlock_def fprintf_stderr_def initial_state_def)

text \<open>
  C8, at the input where the code departs from it. In the initial state the mutex is
  not held. \<open>__sei\<close>, called there by the entry of a non-atomic section, stores
  4294967295 in the counter; the unlock call that follows releases nothing. The store
  is the first event of the section, before any lock call: the counter is written
  while the mutex is not held.
\<close>

theorem count_mutated_without_lock:
  "atomic_mutex initial_state = 0
   \<and> sei 0 initial_state =
       \<lparr>atomic_mutex = 0, atomic_count = 4294967295,
        log = [Count_store 4294967295, Mutex_unlock]\<rparr>
   \<and> log (snd (guard NONATOMIC_RESTORESTATE skip initial_state)) =
       [Count_store 4294967295, Mutex_unlock, Mutex_lock, Count_store 0]"
  by (simp add: guard_run skip_def iCliParam_def sei_def cli_def Let_def pthread_mutex_lock_def
      pthread_mutex_unlock_def fprintf_stderr_def initial_state_def)

section \<open>Restore and Force sections side by side\<close>

text \<open>
  C9. From every state, the entry helper called with the initial \<open>sreg_save\<close> of a
  Restore parameter and with that of its Force parameter gives the same hold count,
  the same counter and the same log up to lines on stderr; so does the cleanup
  handler on exit. The cleanup handler gives the same lock view for any two values of
  \<open>sreg_save\<close>: the value only decides whether the warning may be written. Hence a
  sequence of nested sections and the same sequence with every Restore parameter
  replaced by its Force parameter complete the same way and end in the same lock
  view.
\<close>

theorem restore_force_same_transitions:
  "lock_view (snd (iCliRetVal (sreg_save ATOMIC_RESTORESTATE) s)) =
     lock_view (snd (iCliRetVal (sreg_save ATOMIC_FORCEON) s))
   \<and> lock_view (cleanup ATOMIC_RESTORESTATE (sreg_save ATOMIC_RESTORESTATE) s) =
     lock_view (cleanup ATOMIC_FORCEON (sreg_save ATOMIC_FORCEON) s)
   \<and> lock_view (snd (iSeiRetVal (sreg_save NONATOMIC_RESTORESTATE) s)) =
     lock_view (snd (iSeiRetVal (sreg_save NONATOMIC_FORCEOFF) s))
   \<and> lock_view (cleanup NONATOMIC_RESTORESTATE (sreg_save NONATOMIC_RESTORESTATE) s) =
     lock_view (cleanup NONATOMIC_FORCEOFF (sreg_save NONATOMIC_FORCEOFF) s)
   \<and> lock_view (cleanup type v s) = lock_view (cleanup type w s)
   \<and> fst (exec_seq rs s) = fst (exec_seq (map force rs) s)
   \<and> lock_view (snd (exec_seq rs s)) = lock_view (snd (exec_seq (map force rs) s))"
proof -
  have same: "lock_view s = lock_view s"
    by (rule refl)
  have entry_exit: "lock_view (cli v' s) = lock_view (cli w' s)"
    "lock_view (sei v' s) = lock_view (sei w' s)" for v' w'
    by (rule lock_view_cli [OF same], rule lock_view_sei [OF same])
  have "lock_view (cleanup type v s) = lock_view (cleanup type w s)"
    by (cases type) (simp_all add: iSeiParam_def iCliParam_def entry_exit)
  moreover note exec_force(2) [OF same, of rs]
  ultimately show ?thesis
    by (simp add: iCliRetVal_def iSeiRetVal_def iSeiParam_def iCliParam_def entry_exit)
qed

theorem restore_force_same_transitions_witness:
  "lock_view (snd (exec_seq [Block ATOMIC_RESTORESTATE [Block NONATOMIC_RESTORESTATE [Leave Break]]]
       (cli 1 initial_state))) =
     (1, 1, [Mutex_lock, Count_store 1, Mutex_lock, Count_store 2, Count_store 1, Mutex_unlock,
             Mutex_lock, Count_store 2, Count_store 1, Mutex_unlock])
   \<and> lock_view (snd (exec_seq
       [Block ATOMIC_FORCEON [Block NONATOMIC_FORCEOFF [Leave Break]]] (cli 1 initial_state))) =
     (1, 1, [Mutex_lock, Count_store 1, Mutex_lock, Count_store 2, Count_store 1, Mutex_unlock,
             Mutex_lock, Count_store 2, Count_store 1, Mutex_unlock])
   \<and> stderr_lines (log (snd (exec_seq
       [Block ATOMIC_RESTORESTATE [Block NONATOMIC_RESTORESTATE [Leave Break]]]
       (cli 1 initial_state)))) = []
   \<and> stderr_lines (log (snd (exec_seq
       [Block ATOMIC_FORCEON [Block NONATOMIC_FORCEOFF [Leave Break]]] (cli 1 initial_state)))) =
     [warning, warning, warning, warning]"
  using restore_force_same_transitions
    [of "cli 1 initial_state" ATOMIC_RESTORESTATE 0 1
        "[Block ATOMIC_RESTORESTATE [Block NONATOMIC_RESTORESTATE [Leave Break]]]"]
  by (simp add: guard_run lock_view_def iCliRetVal_def iSeiRetVal_def iSeiParam_def
      iCliParam_def sei_def cli_def Let_def pthread_mutex_lock_def pthread_mutex_unlock_def
      fprintf_stderr_def initial_state_def)

end
